theory Spec2Isabelle
  imports Main "HOL-Library.Multiset"
begin

section \<open>The credential plugin use-case \<^verbatim>\<open>GetToken.Do\<close> (pkg/usecases/credentialplugin)\<close>

subsection \<open>Errors\<close>

text \<open>
  A Go \<^verbatim>\<open>error\<close> value. \<^verbatim>\<open>xerrors.New(msg)\<close> is \<open>New msg\<close>;
  \<^verbatim>\<open>xerrors.Errorf(format, err)\<close> with a format ending in \<^verbatim>\<open>%w\<close> is
  \<open>Errorf format err\<close>: it keeps the format and the wrapped error. The value \<^verbatim>\<open>nil\<close> of
  type \<^verbatim>\<open>error\<close> is \<open>None\<close> of \<open>go_error option\<close>.
\<close>

datatype go_error = New string | is_Errorf: Errorf string go_error

subsection \<open>Data transfer objects\<close>

text \<open>\<^verbatim>\<open>time.Time\<close>, read as seconds since the epoch.\<close>

type_synonym time_Time = int

text \<open>\<^verbatim>\<open>tlsclientconfig.Config\<close>.\<close>

record tlsclientconfig_Config =
  CACertFilename :: "string list"
  CACertData :: "string list"
  SkipTLSVerify :: bool

text \<open>\<^verbatim>\<open>ropc.Option\<close>; only \<^verbatim>\<open>Username\<close> is read here.\<close>

record ropc_Option =
  Username :: string

text \<open>
  \<^verbatim>\<open>authentication.GrantOptionSet\<close>: a struct of pointers, one per grant strategy.
  \<^verbatim>\<open>GetToken.Do\<close> reads \<^verbatim>\<open>ROPCOption\<close> only and hands the whole set to the
  authentication use-case unchanged.
\<close>

record GrantOptionSet =
  ROPCOption :: "ropc_Option option"

text \<open>\<^verbatim>\<open>credentialplugin.Input\<close>.\<close>

record Input =
  IssuerURL :: string
  ClientID :: string
  ClientSecret :: string
  ExtraScopes :: "string list"
  TokenCacheDir :: string
  GrantOptionSet :: GrantOptionSet
  TLSClientConfig :: tlsclientconfig_Config

text \<open>\<^verbatim>\<open>tokencache.Key\<close>, with the fields the composite literal of \<^verbatim>\<open>Do\<close> sets.\<close>

record tokencache_Key =
  Key_IssuerURL :: string
  Key_ClientID :: string
  Key_ClientSecret :: string
  Key_Username :: string
  Key_ExtraScopes :: "string list"
  Key_CACertFilename :: string
  Key_CACertData :: string
  Key_SkipTLSVerify :: bool

text \<open>\<^verbatim>\<open>oidc.Provider\<close> and \<^verbatim>\<open>oidc.TokenSet\<close>.\<close>

record oidc_Provider =
  Provider_IssuerURL :: string
  Provider_ClientID :: string
  Provider_ClientSecret :: string
  Provider_ExtraScopes :: "string list"

record oidc_TokenSet =
  IDToken :: string
  RefreshToken :: string

text \<open>The claims that \<^verbatim>\<open>TokenSet.DecodeWithoutVerify\<close> returns.\<close>

record oidc_Claims =
  Pretty :: string
  Expiry :: time_Time

text \<open>\<^verbatim>\<open>authentication.Input\<close> and \<^verbatim>\<open>authentication.Output\<close>.\<close>

record authentication_Input =
  Provider :: oidc_Provider
  AuthInput_GrantOptionSet :: GrantOptionSet
  CachedTokenSet :: "oidc_TokenSet option"
  AuthInput_TLSClientConfig :: tlsclientconfig_Config

record authentication_Output =
  AlreadyHasValidIDToken :: bool
  TokenSet :: oidc_TokenSet

text \<open>\<^verbatim>\<open>credentialpluginwriter.Output\<close>.\<close>

record credentialpluginwriter_Output =
  Token :: string
  Output_Expiry :: time_Time

text \<open>\<^verbatim>\<open>mutex.Lock\<close>.\<close>

record mutex_Lock =
  Data :: string

subsection \<open>Collaborators\<close>

text \<open>
  The struct \<^verbatim>\<open>GetToken\<close> holds its collaborators behind interfaces. Each interface
  method is a function from its arguments to its Go result tuple: a pointer result is an
  \<open>option\<close> (\<open>None\<close> is \<^verbatim>\<open>nil\<close>) and an \<^verbatim>\<open>error\<close> result is a
  \<open>go_error option\<close>, so a method may return a value and an error together, as Go allows.
  \<^verbatim>\<open>Do\<close> calls every method at most once, so a function of the arguments describes any
  implementation during one invocation. The \<^verbatim>\<open>context.Context\<close> argument is only passed
  along and is left out. The logger is not a field here: its calls are recorded in the
  trace.
\<close>

record GetToken =
  Authentication_Do :: "authentication_Input \<Rightarrow> authentication_Output option \<times> go_error option"
  FindByKey :: "string \<Rightarrow> tokencache_Key \<Rightarrow> oidc_TokenSet option \<times> go_error option"
  Save :: "string \<Rightarrow> tokencache_Key \<Rightarrow> oidc_TokenSet \<Rightarrow> go_error option"
  Writer_Write :: "credentialpluginwriter_Output \<Rightarrow> go_error option"
  Mutex_Acquire :: "string \<Rightarrow> mutex_Lock option \<times> go_error option"
  Mutex_Release :: "mutex_Lock option \<Rightarrow> go_error option"

subsection \<open>Observable events\<close>

text \<open>An argument of a log line.\<close>

datatype logarg = ArgString string | ArgError go_error | ArgTime time_Time

text \<open>
  What one invocation does to the outside, in the order it does it: the log lines
  (\<^verbatim>\<open>u.Logger.V(1).Infof\<close>), the calls to the collaborators with their arguments, and the
  call of \<^verbatim>\<open>DecodeWithoutVerify\<close> on a token set.
\<close>

datatype event =
    is_Infof: Infof string "logarg list"
  | is_Acquire: CallAcquire string
  | is_Release: CallRelease "mutex_Lock option"
  | is_FindByKey: CallFindByKey string tokencache_Key
  | is_Authentication: CallAuthentication authentication_Input
  | is_Decode: CallDecode oidc_TokenSet
  | is_Save: CallSave string tokencache_Key oidc_TokenSet
  | is_Write: CallWrite credentialpluginwriter_Output

text \<open>
  How an invocation ends: it returns an \<^verbatim>\<open>error\<close> (\<open>None\<close> is \<^verbatim>\<open>nil\<close>), or it
  panics on a nil pointer dereference.
\<close>

datatype outcome = Returned "go_error option" | Panicked

subsection \<open>\<^verbatim>\<open>strings.Join\<close>\<close>

fun Join :: "string list \<Rightarrow> string \<Rightarrow> string" where
  "Join [] sep = []"
| "Join [a] sep = a"
| "Join (a # b # bs) sep = a @ sep @ Join (b # bs) sep"

subsection \<open>The body of \<^verbatim>\<open>GetToken.Do\<close>\<close>

text \<open>Lines 65 to 76: the token cache key.\<close>

definition tokenCacheKey :: "Input \<Rightarrow> tokencache_Key" where
  "tokenCacheKey i =
     (let k = \<lparr> Key_IssuerURL = IssuerURL i,
                Key_ClientID = ClientID i,
                Key_ClientSecret = ClientSecret i,
                Key_Username = [],
                Key_ExtraScopes = ExtraScopes i,
                Key_CACertFilename = Join (CACertFilename (TLSClientConfig i)) '','',
                Key_CACertData = Join (CACertData (TLSClientConfig i)) '','',
                Key_SkipTLSVerify = SkipTLSVerify (TLSClientConfig i) \<rparr>
      in case ROPCOption (GrantOptionSet i) of
           None \<Rightarrow> k
         | Some opt \<Rightarrow> k \<lparr> Key_Username := Username opt \<rparr>)"

text \<open>Lines 82 to 92: the input of the authentication use-case.\<close>

definition authenticationInput :: "Input \<Rightarrow> oidc_TokenSet option \<Rightarrow> authentication_Input" where
  "authenticationInput i cachedTokenSet =
     \<lparr> Provider = \<lparr> Provider_IssuerURL = IssuerURL i,
                    Provider_ClientID = ClientID i,
                    Provider_ClientSecret = ClientSecret i,
                    Provider_ExtraScopes = ExtraScopes i \<rparr>,
       AuthInput_GrantOptionSet = GrantOptionSet i,
       CachedTokenSet = cachedTokenSet,
       AuthInput_TLSClientConfig = TLSClientConfig i \<rparr>"

text \<open>
  Lines 97 to 119, after the authentication use-case has returned the output \<open>out\<close>
  with a nil error. \<open>decode\<close> is \<^verbatim>\<open>TokenSet.DecodeWithoutVerify\<close>, a method of package
  \<^verbatim>\<open>oidc\<close>: it returns the claims or an error.
\<close>

definition Do_authenticated ::
  "(oidc_TokenSet \<Rightarrow> go_error + oidc_Claims) \<Rightarrow> GetToken \<Rightarrow> Input \<Rightarrow> tokencache_Key \<Rightarrow>
   authentication_Output \<Rightarrow> outcome \<times> event list" where
  "Do_authenticated decode u i key out =
     (case decode (TokenSet out) of
        Inl err \<Rightarrow>
          (Returned (Some (Errorf ''you got an invalid token: %w'' err)),
           [CallDecode (TokenSet out)])
      | Inr idTokenClaims \<Rightarrow>
          (let t1 = [CallDecode (TokenSet out),
                     Infof ''you got a token: %s'' [ArgString (Pretty idTokenClaims)]];
               written = \<lparr> Token = IDToken (TokenSet out),
                           Output_Expiry = Expiry idTokenClaims \<rparr>;
               t3 = [Infof ''writing the token to client-go'' [], CallWrite written];
               r3 = (case Writer_Write u written of
                       Some err \<Rightarrow>
                         Returned (Some (Errorf ''could not write the token to client-go: %w'' err))
                     | None \<Rightarrow> Returned None)
           in if AlreadyHasValidIDToken out
              then (r3, t1 @ [Infof ''you already have a valid token until %s''
                                [ArgTime (Expiry idTokenClaims)]] @ t3)
              else (let t2 = [Infof ''you got a valid token until %s''
                                [ArgTime (Expiry idTokenClaims)],
                              CallSave (TokenCacheDir i) key (TokenSet out)]
                    in case Save u (TokenCacheDir i) key (TokenSet out) of
                         Some err \<Rightarrow>
                           (Returned (Some (Errorf ''could not write the token cache: %w'' err)),
                            t1 @ t2)
                       | None \<Rightarrow> (r3, t1 @ t2 @ t3))))"

text \<open>
  Lines 64 to 119, while the lock is held. The token set that \<^verbatim>\<open>FindByKey\<close> returns is
  passed on whatever its error is: the error is only logged.
\<close>

definition Do_locked ::
  "(oidc_TokenSet \<Rightarrow> go_error + oidc_Claims) \<Rightarrow> GetToken \<Rightarrow> Input \<Rightarrow> outcome \<times> event list" where
  "Do_locked decode u i =
     (let tokenCacheKey = tokenCacheKey i;
          found = FindByKey u (TokenCacheDir i) tokenCacheKey;
          cachedTokenSet = fst found;
          t1 = [Infof ''finding a token from cache directory %s'' [ArgString (TokenCacheDir i)],
                CallFindByKey (TokenCacheDir i) tokenCacheKey]
               @ (case snd found of
                    Some err \<Rightarrow> [Infof ''could not find a token cache: %s'' [ArgError err]]
                  | None \<Rightarrow> []);
          authenticationInput = authenticationInput i cachedTokenSet;
          t2 = t1 @ [CallAuthentication authenticationInput]
      in case Authentication_Do u authenticationInput of
           (_, Some err) \<Rightarrow> (Returned (Some (Errorf ''authentication error: %w'' err)), t2)
         | (None, None) \<Rightarrow> (Panicked, t2)
         | (Some out, None) \<Rightarrow>
             (let (r, t) = Do_authenticated decode u i tokenCacheKey out in (r, t2 @ t)))"

text \<open>
  \<^verbatim>\<open>func (u *GetToken) Do(ctx context.Context, in Input) error\<close>. The result is the
  outcome with the trace of events. The deferred \<^verbatim>\<open>Release\<close> runs when the function
  leaves after a successful \<^verbatim>\<open>Acquire\<close>, also on a panic, and its error is dropped.
\<close>

definition Do ::
  "(oidc_TokenSet \<Rightarrow> go_error + oidc_Claims) \<Rightarrow> GetToken \<Rightarrow> Input \<Rightarrow> outcome \<times> event list" where
  "Do decode u i =
     (let t0 = [Infof ''WARNING: log may contain your secrets such as token or password'' [],
                CallAcquire ''get-token'']
      in case Mutex_Acquire u ''get-token'' of
           (lock, Some err) \<Rightarrow> (Returned (Some err), t0)
         | (lock, None) \<Rightarrow>
             (let (r, t) = Do_locked decode u i in (r, t0 @ t @ [CallRelease lock])))"

text \<open>The calls of a trace: its events without the log lines.\<close>

definition calls :: "event list \<Rightarrow> event list" where
  "calls t = filter (\<lambda>e. \<not> is_Infof e) t"

text \<open>
  The step of \<^verbatim>\<open>Do\<close> that a call belongs to, numbered in the order of the source text
  with the deferred release last. Log lines have no step; \<open>calls\<close> removes them.
\<close>

definition step_rank :: "event \<Rightarrow> nat" where
  "step_rank e =
     (case e of
        Infof _ _ \<Rightarrow> 0
      | CallAcquire _ \<Rightarrow> 0
      | CallFindByKey _ _ \<Rightarrow> 1
      | CallAuthentication _ \<Rightarrow> 2
      | CallDecode _ \<Rightarrow> 3
      | CallSave _ _ _ \<Rightarrow> 4
      | CallWrite _ \<Rightarrow> 5
      | CallRelease _ \<Rightarrow> 6)"

text \<open>\<open>precedes p q t\<close>: in \<open>t\<close> some event with \<open>p\<close> comes before some event with \<open>q\<close>.\<close>

fun precedes :: "('a \<Rightarrow> bool) \<Rightarrow> ('a \<Rightarrow> bool) \<Rightarrow> 'a list \<Rightarrow> bool" where
  "precedes p q [] = False"
| "precedes p q (x # xs) = ((p x \<and> list_ex q xs) \<or> precedes p q xs)"

section \<open>The standalone use-case \<^verbatim>\<open>Standalone.Do\<close> (pkg/usecases/standalone)\<close>

text \<open>
  \<^verbatim>\<open>kubeconfig.AuthProvider\<close> and \<^verbatim>\<open>standalone.Input\<close>, with the fields that
  \<^verbatim>\<open>standalone_test.go\<close> sets.
\<close>

record kubeconfig_AuthProvider =
  LocationOfOrigin :: string
  UserName :: string
  IDPIssuerURL :: string
  AuthProvider_ClientID :: string
  AuthProvider_ClientSecret :: string
  IDPCertificateAuthority :: string
  IDPCertificateAuthorityData :: string
  AuthProvider_IDToken :: string
  AuthProvider_RefreshToken :: string

record standalone_Input =
  KubeconfigFilename :: string
  KubeconfigContext :: string
  KubeconfigUser :: string
  Standalone_GrantOptionSet :: GrantOptionSet

text \<open>
  Modelled from the spec: the collaborators of \<^verbatim>\<open>Standalone\<close>. Their interfaces
  (packages kubeconfig and authentication) are not among the source files; they have the
  contracts of section 6 of the specification: each returns its result or an error.
\<close>

record Standalone =
  Standalone_Authentication_Do :: "authentication_Input \<Rightarrow> go_error + authentication_Output"
  GetCurrentAuthProvider :: "string \<Rightarrow> string \<Rightarrow> string \<Rightarrow> go_error + kubeconfig_AuthProvider"
  UpdateAuthProvider :: "kubeconfig_AuthProvider \<Rightarrow> go_error option"

datatype standalone_event =
    is_GetCurrentAuthProvider: CallGetCurrentAuthProvider string string string
  | is_StandaloneAuthentication: CallStandaloneAuthentication authentication_Input
  | is_StandaloneDecode: CallStandaloneDecode oidc_TokenSet
  | is_UpdateAuthProvider: CallUpdateAuthProvider kubeconfig_AuthProvider

text \<open>
  Modelled from the spec: the authentication input that \<^verbatim>\<open>Standalone.Do\<close> builds
  from the entry that was read (section 4.3 of the specification): the provider and the TLS
  client configuration from the entry's fields (a CA list is empty when the entry's field
  is the empty string, as in the test cases), and the entry's tokens as the candidate when
  it carries an ID token.
\<close>

definition standalone_authenticationInput ::
  "standalone_Input \<Rightarrow> kubeconfig_AuthProvider \<Rightarrow> authentication_Input" where
  "standalone_authenticationInput i authProvider =
     \<lparr> Provider = \<lparr> Provider_IssuerURL = IDPIssuerURL authProvider,
                    Provider_ClientID = AuthProvider_ClientID authProvider,
                    Provider_ClientSecret = AuthProvider_ClientSecret authProvider,
                    Provider_ExtraScopes = [] \<rparr>,
       AuthInput_GrantOptionSet = Standalone_GrantOptionSet i,
       CachedTokenSet =
         (if AuthProvider_IDToken authProvider = [] then None
          else Some \<lparr> IDToken = AuthProvider_IDToken authProvider,
                      RefreshToken = AuthProvider_RefreshToken authProvider \<rparr>),
       AuthInput_TLSClientConfig =
         \<lparr> CACertFilename =
             (if IDPCertificateAuthority authProvider = [] then []
              else [IDPCertificateAuthority authProvider]),
           CACertData =
             (if IDPCertificateAuthorityData authProvider = [] then []
              else [IDPCertificateAuthorityData authProvider]),
           SkipTLSVerify = False \<rparr> \<rparr>"

text \<open>
  Modelled from the spec: \<^verbatim>\<open>Standalone.Do\<close>, whose source file (standalone.go) is not
  among the sources; only its test is. The steps are those of section 4.3 of the
  specification, with the token-decode error of section 7: read the current provider
  entry (a failure is returned at once, before any authentication); call the
  authentication use-case (a failure is returned as an authentication error); decode the
  returned token set, after the authentication has succeeded and before any write (a
  token that does not decode is a fatal error); if the token is not a reused one, set
  the token fields of the entry and write the entry back (a failure is returned). The
  specification names the stages of the errors, not the text of their messages; the
  formats below name the stage. \<open>decode\<close> is the token claim decoding of section 6.
\<close>

definition Standalone_Do ::
  "(oidc_TokenSet \<Rightarrow> go_error + oidc_Claims) \<Rightarrow> Standalone \<Rightarrow> standalone_Input \<Rightarrow>
   go_error option \<times> standalone_event list" where
  "Standalone_Do decode u i =
     (let t0 = [CallGetCurrentAuthProvider (KubeconfigFilename i) (KubeconfigContext i)
                  (KubeconfigUser i)]
      in case GetCurrentAuthProvider u (KubeconfigFilename i) (KubeconfigContext i)
                (KubeconfigUser i) of
           Inl err \<Rightarrow> (Some (Errorf ''configuration read error: %w'' err), t0)
         | Inr authProvider \<Rightarrow>
             (let authenticationInput = standalone_authenticationInput i authProvider;
                  t1 = t0 @ [CallStandaloneAuthentication authenticationInput]
              in case Standalone_Authentication_Do u authenticationInput of
                   Inl err \<Rightarrow> (Some (Errorf ''authentication error: %w'' err), t1)
                 | Inr out \<Rightarrow>
                     (let t2 = t1 @ [CallStandaloneDecode (TokenSet out)]
                      in case decode (TokenSet out) of
                           Inl err \<Rightarrow> (Some (Errorf ''token decode error: %w'' err), t2)
                         | Inr idTokenClaims \<Rightarrow>
                             if AlreadyHasValidIDToken out then (None, t2)
                             else (let updated = authProvider
                                         \<lparr> AuthProvider_IDToken := IDToken (TokenSet out),
                                           AuthProvider_RefreshToken :=
                                             RefreshToken (TokenSet out) \<rparr>;
                                       t3 = t2 @ [CallUpdateAuthProvider updated]
                                   in case UpdateAuthProvider u updated of
                                        Some err \<Rightarrow>
                                          (Some (Errorf ''entry update error: %w'' err), t3)
                                      | None \<Rightarrow> (None, t3)))))"

section \<open>Concrete collaborators and inputs\<close>

text \<open>
  The values of \<^verbatim>\<open>get_token_test.go\<close> and \<^verbatim>\<open>standalone_test.go\<close>. The decoder
  accepts the one token the tests issue and rejects any other string.
\<close>

definition test_decode :: "oidc_TokenSet \<Rightarrow> go_error + oidc_Claims" where
  "test_decode ts =
     (if IDToken ts = ''ISSUED_ID_TOKEN''
      then Inr \<lparr> Pretty = ''{iss: https://accounts.google.com, sub: YOUR_SUBJECT}'',
                 Expiry = 3600 \<rparr>
      else Inl (New ''token contains an invalid number of segments''))"

definition test_GetToken ::
  "(mutex_Lock option \<times> go_error option) \<Rightarrow> (oidc_TokenSet option \<times> go_error option) \<Rightarrow>
   (authentication_Output option \<times> go_error option) \<Rightarrow> GetToken" where
  "test_GetToken acquired found authenticated =
     \<lparr> Authentication_Do = (\<lambda>_. authenticated),
       FindByKey = (\<lambda>_ _. found),
       Save = (\<lambda>_ _ _. None),
       Writer_Write = (\<lambda>_. None),
       Mutex_Acquire = (\<lambda>_. acquired),
       Mutex_Release = (\<lambda>_. None) \<rparr>"

definition test_Input :: Input where
  "test_Input =
     \<lparr> IssuerURL = ''https://accounts.google.com'',
       ClientID = ''YOUR_CLIENT_ID'',
       ClientSecret = ''YOUR_CLIENT_SECRET'',
       ExtraScopes = [],
       TokenCacheDir = ''/path/to/token-cache'',
       GrantOptionSet = \<lparr> ROPCOption = None \<rparr>,
       TLSClientConfig = \<lparr> CACertFilename = [], CACertData = [], SkipTLSVerify = False \<rparr> \<rparr>"

definition test_Lock :: "mutex_Lock option" where
  "test_Lock = Some \<lparr> Data = ''testData'' \<rparr>"

definition test_TokenSet :: "string \<Rightarrow> oidc_TokenSet" where
  "test_TokenSet idToken = \<lparr> IDToken = idToken, RefreshToken = ''YOUR_REFRESH_TOKEN'' \<rparr>"

definition test_Output :: "bool \<Rightarrow> string \<Rightarrow> authentication_Output" where
  "test_Output reused idToken =
     \<lparr> AlreadyHasValidIDToken = reused, TokenSet = test_TokenSet idToken \<rparr>"

text \<open>The collaborators of the scenarios below.\<close>

definition GetToken_lock_fails :: GetToken where
  "GetToken_lock_fails =
     test_GetToken (None, Some (New ''could not lock'')) (None, None) (None, None)"

definition GetToken_authentication_fails :: GetToken where
  "GetToken_authentication_fails =
     test_GetToken (test_Lock, None) (None, Some (New ''file not found''))
       (None, Some (New ''authentication error''))"

definition GetToken_fresh :: GetToken where
  "GetToken_fresh =
     test_GetToken (test_Lock, None) (None, Some (New ''file not found''))
       (Some (test_Output False ''ISSUED_ID_TOKEN''), None)"

definition GetToken_fresh_no_lookup_error :: GetToken where
  "GetToken_fresh_no_lookup_error =
     test_GetToken (test_Lock, None) (None, None)
       (Some (test_Output False ''ISSUED_ID_TOKEN''), None)"

definition GetToken_fresh_undecodable :: GetToken where
  "GetToken_fresh_undecodable =
     test_GetToken (test_Lock, None) (None, Some (New ''file not found''))
       (Some (test_Output False ''not a token''), None)"

definition GetToken_reused_undecodable :: GetToken where
  "GetToken_reused_undecodable =
     test_GetToken (test_Lock, None) (Some (test_TokenSet ''not a token''), None)
       (Some (test_Output True ''not a token''), None)"

definition GetToken_save_fails :: GetToken where
  "GetToken_save_fails =
     (test_GetToken (test_Lock, None) (None, Some (New ''file not found''))
        (Some (test_Output False ''ISSUED_ID_TOKEN''), None))
       \<lparr> Save := \<lambda>dir key tokenSet. Some (New ''no space left on device'') \<rparr>"

definition GetToken_reused :: GetToken where
  "GetToken_reused =
     test_GetToken (test_Lock, None) (Some (test_TokenSet ''ISSUED_ID_TOKEN''), None)
       (Some (test_Output True ''ISSUED_ID_TOKEN''), None)"

definition GetToken_write_fails :: GetToken where
  "GetToken_write_fails =
     (test_GetToken (test_Lock, None) (None, Some (New ''file not found''))
        (Some (test_Output False ''ISSUED_ID_TOKEN''), None))
       \<lparr> Writer_Write := \<lambda>out. Some (New ''broken pipe'') \<rparr>"

definition test_AuthProvider :: kubeconfig_AuthProvider where
  "test_AuthProvider =
     \<lparr> LocationOfOrigin = ''/path/to/kubeconfig'',
       UserName = ''theUser'',
       IDPIssuerURL = ''https://accounts.google.com'',
       AuthProvider_ClientID = ''YOUR_CLIENT_ID'',
       AuthProvider_ClientSecret = ''YOUR_CLIENT_SECRET'',
       IDPCertificateAuthority = ''/path/to/cert2'',
       IDPCertificateAuthorityData = ''BASE64ENCODED2'',
       AuthProvider_IDToken = [],
       AuthProvider_RefreshToken = [] \<rparr>"

definition test_standalone_Input :: standalone_Input where
  "test_standalone_Input =
     \<lparr> KubeconfigFilename = ''/path/to/kubeconfig'',
       KubeconfigContext = ''theContext'',
       KubeconfigUser = ''theUser'',
       Standalone_GrantOptionSet = \<lparr> ROPCOption = None \<rparr> \<rparr>"

definition test_Standalone :: "authentication_Output \<Rightarrow> Standalone" where
  "test_Standalone out =
     \<lparr> Standalone_Authentication_Do = (\<lambda>_. Inr out),
       GetCurrentAuthProvider = (\<lambda>_ _ _. Inr test_AuthProvider),
       UpdateAuthProvider = (\<lambda>_. None) \<rparr>"

section \<open>Properties of \<^verbatim>\<open>GetToken.Do\<close>\<close>

subsection \<open>The paths through \<^verbatim>\<open>Do\<close>\<close>

lemma Do_when_acquire_fails:
  assumes "snd (Mutex_Acquire u ''get-token'') = Some err"
  shows "Do decode u i =
    (Returned (Some err),
     [Infof ''WARNING: log may contain your secrets such as token or password'' [],
      CallAcquire ''get-token''])"
  using assms by (cases "Mutex_Acquire u ''get-token''") (simp add: Do_def)

lemma Do_acquired:
  assumes "snd (Mutex_Acquire u ''get-token'') = None"
  shows "Do decode u i =
    (fst (Do_locked decode u i),
     [Infof ''WARNING: log may contain your secrets such as token or password'' [],
      CallAcquire ''get-token'']
     @ snd (Do_locked decode u i)
     @ [CallRelease (fst (Mutex_Acquire u ''get-token''))])"
  using assms
  by (cases "Mutex_Acquire u ''get-token''") (simp add: Do_def split: prod.splits)

lemma calls_append: "calls (xs @ ys) = calls xs @ calls ys"
  by (simp add: calls_def)

lemma calls_Cons:
  "calls (e # t) = (if is_Infof e then calls t else e # calls t)"
  by (simp add: calls_def)

lemma calls_Nil: "calls [] = []"
  by (simp add: calls_def)

lemma calls_found_log:
  "calls (case x of Some err \<Rightarrow> [Infof m [ArgError err]] | None \<Rightarrow> []) = []"
  by (simp add: calls_def split: option.splits)

lemma Do_locked_auth_error:
  assumes "snd (Authentication_Do u (authenticationInput i
             (fst (FindByKey u (TokenCacheDir i) (tokenCacheKey i))))) = Some err"
  shows "fst (Do_locked decode u i) = Returned (Some (Errorf ''authentication error: %w'' err))"
    and "calls (snd (Do_locked decode u i)) =
         [CallFindByKey (TokenCacheDir i) (tokenCacheKey i),
          CallAuthentication (authenticationInput i
             (fst (FindByKey u (TokenCacheDir i) (tokenCacheKey i))))]"
  using assms
  by (cases "Authentication_Do u (authenticationInput i
               (fst (FindByKey u (TokenCacheDir i) (tokenCacheKey i))))";
      simp add: Do_locked_def Let_def calls_append calls_Cons calls_Nil calls_found_log
        split: prod.splits option.splits)+

lemma Do_locked_authenticated:
  assumes "Authentication_Do u (authenticationInput i
             (fst (FindByKey u (TokenCacheDir i) (tokenCacheKey i)))) = (Some out, None)"
  shows "fst (Do_locked decode u i) = fst (Do_authenticated decode u i (tokenCacheKey i) out)"
    and "calls (snd (Do_locked decode u i)) =
         [CallFindByKey (TokenCacheDir i) (tokenCacheKey i),
          CallAuthentication (authenticationInput i
             (fst (FindByKey u (TokenCacheDir i) (tokenCacheKey i))))]
         @ calls (snd (Do_authenticated decode u i (tokenCacheKey i) out))"
  using assms
  by (cases "Authentication_Do u (authenticationInput i
               (fst (FindByKey u (TokenCacheDir i) (tokenCacheKey i))))";
      simp add: Do_locked_def Let_def calls_append calls_Cons calls_Nil calls_found_log
        split: prod.splits option.splits)+

lemma Do_locked_panic:
  assumes "Authentication_Do u (authenticationInput i
             (fst (FindByKey u (TokenCacheDir i) (tokenCacheKey i)))) = (None, None)"
  shows "fst (Do_locked decode u i) = Panicked"
    and "calls (snd (Do_locked decode u i)) =
         [CallFindByKey (TokenCacheDir i) (tokenCacheKey i),
          CallAuthentication (authenticationInput i
             (fst (FindByKey u (TokenCacheDir i) (tokenCacheKey i))))]"
  using assms
  by (cases "Authentication_Do u (authenticationInput i
               (fst (FindByKey u (TokenCacheDir i) (tokenCacheKey i))))";
      simp add: Do_locked_def Let_def calls_append calls_Cons calls_Nil calls_found_log
        split: prod.splits option.splits)+

lemma Do_authenticated_decode_error:
  assumes "decode (TokenSet out) = Inl err"
  shows "Do_authenticated decode u i key out =
         (Returned (Some (Errorf ''you got an invalid token: %w'' err)),
          [CallDecode (TokenSet out)])"
  using assms by (simp add: Do_authenticated_def)

lemma Do_authenticated_calls:
  assumes "decode (TokenSet out) = Inr c"
  shows "calls (snd (Do_authenticated decode u i key out)) =
         CallDecode (TokenSet out) #
         (if AlreadyHasValidIDToken out
          then [CallWrite \<lparr> Token = IDToken (TokenSet out), Output_Expiry = Expiry c \<rparr>]
          else CallSave (TokenCacheDir i) key (TokenSet out) #
               (case Save u (TokenCacheDir i) key (TokenSet out) of
                  Some err \<Rightarrow> []
                | None \<Rightarrow> [CallWrite \<lparr> Token = IDToken (TokenSet out),
                                         Output_Expiry = Expiry c \<rparr>]))"
  using assms
  by (simp add: Do_authenticated_def Let_def calls_append calls_Cons calls_Nil split:
        option.splits)

lemma Do_authenticated_outcome:
  assumes "decode (TokenSet out) = Inr c"
  shows "fst (Do_authenticated decode u i key out) =
         (case (if AlreadyHasValidIDToken out then None
                else Save u (TokenCacheDir i) key (TokenSet out)) of
            Some err \<Rightarrow> Returned (Some (Errorf ''could not write the token cache: %w'' err))
          | None \<Rightarrow>
              (case Writer_Write u \<lparr> Token = IDToken (TokenSet out),
                                      Output_Expiry = Expiry c \<rparr> of
                 Some err \<Rightarrow>
                   Returned (Some (Errorf ''could not write the token to client-go: %w'' err))
               | None \<Rightarrow> Returned None))"
  using assms
  by (simp add: Do_authenticated_def Let_def split: option.splits)

lemma filter_is_Write_calls: "filter is_Write (calls t) = filter is_Write t"
  by (induction t) (auto simp: calls_def)

lemma filter_is_Save_calls: "filter is_Save (calls t) = filter is_Save t"
  by (induction t) (auto simp: calls_def)

lemma filter_is_Authentication_calls:
  "filter is_Authentication (calls t) = filter is_Authentication t"
  by (induction t) (auto simp: calls_def)

lemma filter_is_FindByKey_calls: "filter is_FindByKey (calls t) = filter is_FindByKey t"
  by (induction t) (auto simp: calls_def)

lemma filter_is_FindByKey_authenticated:
  "filter is_FindByKey (calls (snd (Do_authenticated decode u i key out))) = []"
  by (cases "decode (TokenSet out)")
     (simp_all add: Do_authenticated_def Let_def calls_append calls_Cons calls_Nil
        split: option.splits)

lemma filter_is_FindByKey_locked:
  "filter is_FindByKey (calls (snd (Do_locked decode u i)))
     = [CallFindByKey (TokenCacheDir i) (tokenCacheKey i)]"
proof -
  let ?ai = "authenticationInput i (fst (FindByKey u (TokenCacheDir i) (tokenCacheKey i)))"
  obtain o_opt e_opt where a: "Authentication_Do u ?ai = (o_opt, e_opt)"
    by (cases "Authentication_Do u ?ai")
  show ?thesis
  proof (cases e_opt)
    case (Some e)
    then have "snd (Authentication_Do u ?ai) = Some e" using a by simp
    from Do_locked_auth_error(2) [OF this] show ?thesis by simp
  next
    case e_None: None
    show ?thesis
    proof (cases o_opt)
      case None
      with a e_None have "Authentication_Do u ?ai = (None, None)" by simp
      from Do_locked_panic(2) [OF this] show ?thesis by simp
    next
      case (Some out)
      with a e_None have s: "Authentication_Do u ?ai = (Some out, None)" by simp
      show ?thesis
        by (simp add: Do_locked_authenticated(2) [OF s] filter_is_FindByKey_authenticated)
    qed
  qed
qed

lemma Do_lookup_calls:
  "filter is_FindByKey (snd (Do decode u i)) =
     (if snd (Mutex_Acquire u ''get-token'') = None
      then [CallFindByKey (TokenCacheDir i) (tokenCacheKey i)] else [])"
proof (cases "snd (Mutex_Acquire u ''get-token'')")
  case None
  have "filter is_FindByKey (calls (snd (Do decode u i)))
          = [CallFindByKey (TokenCacheDir i) (tokenCacheKey i)]"
    by (simp add: Do_acquired [OF None] calls_append calls_Cons calls_Nil
          filter_is_FindByKey_locked)
  with None show ?thesis by (simp add: filter_is_FindByKey_calls)
next
  case (Some e)
  then show ?thesis by (simp add: Do_when_acquire_fails [OF Some])
qed

subsection \<open>Failure to acquire the lock\<close>

text \<open>
  C4. When \<^verbatim>\<open>Mutex.Acquire\<close> returns an error, \<^verbatim>\<open>Do\<close> returns that error at once
  and the only call it has made is the acquisition: no cache lookup, no authentication,
  no cache save, no write to the sink (and no release).
\<close>

theorem Do_acquire_error_no_further_calls:
  assumes "snd (Mutex_Acquire u ''get-token'') = Some err"
  shows "fst (Do decode u i) = Returned (Some err) \<and>
         calls (snd (Do decode u i)) = [CallAcquire ''get-token'']"
  by (simp add: Do_when_acquire_fails [OF assms] calls_Cons calls_Nil)

theorem Do_acquire_error_no_further_calls_witness:
  "snd (Mutex_Acquire GetToken_lock_fails ''get-token'') = Some (New ''could not lock'') \<and>
   fst (Do test_decode GetToken_lock_fails test_Input) = Returned (Some (New ''could not lock'')) \<and>
   calls (snd (Do test_decode GetToken_lock_fails test_Input)) = [CallAcquire ''get-token'']"
  using Do_acquire_error_no_further_calls
    [of GetToken_lock_fails "New ''could not lock''" test_decode test_Input]
  by (simp add: GetToken_lock_fails_def test_GetToken_def)

subsection \<open>Failure of the authentication use-case\<close>

text \<open>
  C5. When the lock has been acquired and the authentication use-case returns an error,
  \<^verbatim>\<open>Do\<close> returns that error wrapped as an authentication error; its calls are the
  acquisition, the cache lookup, the authentication and the release of the lock that was
  acquired, so there is no cache save and no write to the sink.
\<close>

theorem Do_authentication_error:
  assumes "snd (Mutex_Acquire u ''get-token'') = None"
    and "snd (Authentication_Do u (authenticationInput i
               (fst (FindByKey u (TokenCacheDir i) (tokenCacheKey i))))) = Some err"
  shows "fst (Do decode u i) = Returned (Some (Errorf ''authentication error: %w'' err)) \<and>
         calls (snd (Do decode u i)) =
           [CallAcquire ''get-token'',
            CallFindByKey (TokenCacheDir i) (tokenCacheKey i),
            CallAuthentication (authenticationInput i
              (fst (FindByKey u (TokenCacheDir i) (tokenCacheKey i)))),
            CallRelease (fst (Mutex_Acquire u ''get-token''))]"
  by (simp add: Do_acquired [OF assms(1)] Do_locked_auth_error [OF assms(2)] calls_append
        calls_Cons calls_Nil)

theorem Do_authentication_error_witness:
  "snd (Mutex_Acquire GetToken_authentication_fails ''get-token'') = None \<and>
   snd (Authentication_Do GetToken_authentication_fails
          (authenticationInput test_Input None)) = Some (New ''authentication error'') \<and>
   fst (Do test_decode GetToken_authentication_fails test_Input)
     = Returned (Some (Errorf ''authentication error: %w'' (New ''authentication error''))) \<and>
   calls (snd (Do test_decode GetToken_authentication_fails test_Input))
     = [CallAcquire ''get-token'',
        CallFindByKey ''/path/to/token-cache'' (tokenCacheKey test_Input),
        CallAuthentication (authenticationInput test_Input None),
        CallRelease test_Lock]"
  using Do_authentication_error
    [of GetToken_authentication_fails test_Input "New ''authentication error''" test_decode]
  by (simp add: GetToken_authentication_fails_def test_GetToken_def test_Input_def)

subsection \<open>A token that cannot be decoded\<close>

text \<open>
  C10. When the authentication use-case succeeds and reports that the token is a reused
  valid one, but the ID token it returns does not decode, \<^verbatim>\<open>Do\<close> returns the decode
  error wrapped as an invalid-token error, and no write to the sink occurs.
\<close>

theorem Do_reused_token_decode_error:
  assumes "snd (Mutex_Acquire u ''get-token'') = None"
    and "Authentication_Do u (authenticationInput i
           (fst (FindByKey u (TokenCacheDir i) (tokenCacheKey i)))) = (Some out, None)"
    and "AlreadyHasValidIDToken out"
    and "decode (TokenSet out) = Inl err"
  shows "fst (Do decode u i) = Returned (Some (Errorf ''you got an invalid token: %w'' err)) \<and>
         filter is_Write (snd (Do decode u i)) = [] \<and>
         calls (snd (Do decode u i)) =
           [CallAcquire ''get-token'',
            CallFindByKey (TokenCacheDir i) (tokenCacheKey i),
            CallAuthentication (authenticationInput i
              (fst (FindByKey u (TokenCacheDir i) (tokenCacheKey i)))),
            CallDecode (TokenSet out),
            CallRelease (fst (Mutex_Acquire u ''get-token''))]"
proof -
  have c: "calls (snd (Do decode u i)) =
           [CallAcquire ''get-token'',
            CallFindByKey (TokenCacheDir i) (tokenCacheKey i),
            CallAuthentication (authenticationInput i
              (fst (FindByKey u (TokenCacheDir i) (tokenCacheKey i)))),
            CallDecode (TokenSet out),
            CallRelease (fst (Mutex_Acquire u ''get-token''))]"
    by (simp add: Do_acquired [OF assms(1)] Do_locked_authenticated [OF assms(2)]
          Do_authenticated_decode_error [where decode=decode and out=out, OF assms(4)]
          calls_append calls_Cons calls_Nil)
  have "filter is_Write (calls (snd (Do decode u i))) = []"
    by (simp add: c)
  then have w: "filter is_Write (snd (Do decode u i)) = []"
    by (simp add: filter_is_Write_calls)
  have r: "fst (Do decode u i) = Returned (Some (Errorf ''you got an invalid token: %w'' err))"
    by (simp add: Do_acquired [OF assms(1)] Do_locked_authenticated [OF assms(2)]
          Do_authenticated_decode_error [where decode=decode and out=out, OF assms(4)])
  from r w c show ?thesis by simp
qed

theorem Do_reused_token_decode_error_witness:
  "snd (Mutex_Acquire GetToken_reused_undecodable ''get-token'') = None \<and>
   Authentication_Do GetToken_reused_undecodable
          (authenticationInput test_Input (Some (test_TokenSet ''not a token'')))
     = (Some (test_Output True ''not a token''), None) \<and>
   AlreadyHasValidIDToken (test_Output True ''not a token'') \<and>
   test_decode (TokenSet (test_Output True ''not a token''))
     = Inl (New ''token contains an invalid number of segments'') \<and>
   fst (Do test_decode GetToken_reused_undecodable test_Input)
     = Returned (Some (Errorf ''you got an invalid token: %w''
         (New ''token contains an invalid number of segments''))) \<and>
   filter is_Write (snd (Do test_decode GetToken_reused_undecodable test_Input)) = []"
  using Do_reused_token_decode_error
    [of GetToken_reused_undecodable test_Input "test_Output True ''not a token''" test_decode
      "New ''token contains an invalid number of segments''"]
  by (simp add: GetToken_reused_undecodable_def test_GetToken_def test_Input_def test_Output_def
        test_decode_def test_TokenSet_def)

subsection \<open>When the token cache is written\<close>

text \<open>
  C1, as amended. When the lock has been acquired, the authentication use-case succeeds
  and the token set it returns decodes, \<^verbatim>\<open>Save\<close> is called if and only if the token is
  not reported as a reused valid one; it is then called exactly once, with the token cache
  directory, the derived key and the returned token set.
\<close>

theorem Do_save_iff_fresh_and_decoded:
  assumes "snd (Mutex_Acquire u ''get-token'') = None"
    and "Authentication_Do u (authenticationInput i
           (fst (FindByKey u (TokenCacheDir i) (tokenCacheKey i)))) = (Some out, None)"
    and "decode (TokenSet out) = Inr claims"
  shows "filter is_Save (snd (Do decode u i)) =
           (if AlreadyHasValidIDToken out then []
            else [CallSave (TokenCacheDir i) (tokenCacheKey i) (TokenSet out)])"
proof -
  have "filter is_Save (calls (snd (Do decode u i))) =
           (if AlreadyHasValidIDToken out then []
            else [CallSave (TokenCacheDir i) (tokenCacheKey i) (TokenSet out)])"
    by (simp add: Do_acquired [OF assms(1)] Do_locked_authenticated [OF assms(2)]
          Do_authenticated_calls [where decode=decode and out=out, OF assms(3)] calls_append
          calls_Cons calls_Nil split: option.splits)
  then show ?thesis
    by (simp add: filter_is_Save_calls)
qed

theorem Do_save_iff_fresh_and_decoded_witness:
  "snd (Mutex_Acquire GetToken_fresh ''get-token'') = None \<and>
   Authentication_Do GetToken_fresh
          (authenticationInput test_Input None)
     = (Some (test_Output False ''ISSUED_ID_TOKEN''), None) \<and>
   test_decode (TokenSet (test_Output False ''ISSUED_ID_TOKEN''))
     = Inr \<lparr> Pretty = ''{iss: https://accounts.google.com, sub: YOUR_SUBJECT}'',
               Expiry = 3600 \<rparr> \<and>
   filter is_Save (snd (Do test_decode GetToken_fresh test_Input))
     = [CallSave ''/path/to/token-cache'' (tokenCacheKey test_Input)
          (test_TokenSet ''ISSUED_ID_TOKEN'')]"
  using Do_save_iff_fresh_and_decoded
    [of GetToken_fresh test_Input "test_Output False ''ISSUED_ID_TOKEN''" test_decode
      "\<lparr> Pretty = ''{iss: https://accounts.google.com, sub: YOUR_SUBJECT}'',
         Expiry = 3600 \<rparr>"]
  by (simp add: GetToken_fresh_def test_GetToken_def test_Input_def test_Output_def
        test_decode_def test_TokenSet_def)

text \<open>
  C1 as stated fails: the authentication use-case succeeds with a fresh token whose ID
  token does not decode; \<^verbatim>\<open>Do\<close> returns the decode error before it reaches the save.
\<close>

theorem Do_save_iff_fresh_and_decoded_counterexample:
  "Authentication_Do GetToken_fresh_undecodable
          (authenticationInput test_Input None)
     = (Some (test_Output False ''not a token''), None) \<and>
   AlreadyHasValidIDToken (test_Output False ''not a token'') = False \<and>
   filter is_Save (snd (Do test_decode GetToken_fresh_undecodable test_Input)) = [] \<and>
   fst (Do test_decode GetToken_fresh_undecodable test_Input)
     = Returned (Some (Errorf ''you got an invalid token: %w''
         (New ''token contains an invalid number of segments'')))"
  by (simp add: GetToken_fresh_undecodable_def Do_def Do_locked_def Do_authenticated_def
        test_GetToken_def test_Input_def test_Output_def test_decode_def test_TokenSet_def
        test_Lock_def)

subsection \<open>An error of the cache lookup\<close>

text \<open>
  What \<^verbatim>\<open>Do\<close> does with the result of \<^verbatim>\<open>FindByKey\<close> when the lock has been
  acquired: the error is only logged, and the token set returned beside it is the cached
  token set of the one authentication call. The outcome and the calls are those of the
  invocation in which \<^verbatim>\<open>FindByKey\<close> returns the same token set and no error.
\<close>

lemma Do_with_lookup_error:
  assumes "snd (Mutex_Acquire u ''get-token'') = None"
    and "FindByKey u (TokenCacheDir i) (tokenCacheKey i) = (cached, Some err)"
  shows "filter is_Authentication (snd (Do decode u i))
           = [CallAuthentication (authenticationInput i cached)] \<and>
         fst (Do decode u i)
           = fst (Do decode (u \<lparr> FindByKey := \<lambda>dir key. (cached, None) \<rparr>) i) \<and>
         calls (snd (Do decode u i))
           = calls (snd (Do decode (u \<lparr> FindByKey := \<lambda>dir key. (cached, None) \<rparr>) i))"
proof -
  let ?u = "u \<lparr> FindByKey := \<lambda>dir key. (cached, None) \<rparr>"
  have a: "snd (Mutex_Acquire ?u ''get-token'') = None"
    using assms(1) by simp
  have l: "fst (Do_locked decode u i) = fst (Do_locked decode ?u i) \<and>
           calls (snd (Do_locked decode u i)) = calls (snd (Do_locked decode ?u i)) \<and>
           filter is_Authentication (snd (Do_locked decode u i))
             = [CallAuthentication (authenticationInput i cached)]"
    using assms(2)
    by (cases "Authentication_Do u (authenticationInput i cached)")
       (simp add: Do_locked_def Do_authenticated_def Let_def calls_def
          split: option.splits sum.splits prod.splits)
  show ?thesis
    using l assms(1)
    by (simp add: Do_acquired [OF assms(1)] Do_acquired [OF a] calls_append calls_Cons
          calls_Nil)
qed

lemma Do_lookup_result_is_candidate:
  assumes "snd (Mutex_Acquire u ''get-token'') = None"
  shows "map (\<lambda>e. case e of CallAuthentication ai \<Rightarrow> CachedTokenSet ai | _ \<Rightarrow> None)
           (filter is_Authentication (snd (Do decode u i)))
         = [fst (FindByKey u (TokenCacheDir i) (tokenCacheKey i))]"
proof -
  let ?ai = "authenticationInput i (fst (FindByKey u (TokenCacheDir i) (tokenCacheKey i)))"
  have "filter is_Authentication (calls (snd (Do_locked decode u i))) = [CallAuthentication ?ai]"
    by (cases "Authentication_Do u ?ai")
       (simp add: Do_locked_def Do_authenticated_def Let_def calls_def
          split: option.splits sum.splits prod.splits)
  then have "filter is_Authentication (calls (snd (Do decode u i))) = [CallAuthentication ?ai]"
    by (simp add: Do_acquired [OF assms] calls_append calls_Cons calls_Nil)
  then show ?thesis
    by (simp add: filter_is_Authentication_calls authenticationInput_def)
qed

text \<open>
  C7. \<^verbatim>\<open>FindByKey\<close> returns a token set or an error (section 6 of the specification;
  the failing lookups of \<^verbatim>\<open>get_token_test.go\<close> return nil with the error). When the
  lock has been acquired and \<^verbatim>\<open>FindByKey\<close> returns an error, the error is not
  returned to the caller: the authentication use-case is called once, with the provider,
  the grant options and the TLS configuration of the input and with no cached token set,
  and the outcome and the calls of \<^verbatim>\<open>Do\<close> are exactly those of the invocation in
  which \<^verbatim>\<open>FindByKey\<close> finds nothing and reports no error. The witness sets beside
  it the lookup that succeeds, whose token set is the cached token set of the call.
\<close>

theorem Do_lookup_error_not_surfaced:
  assumes "snd (Mutex_Acquire u ''get-token'') = None"
    and "FindByKey u (TokenCacheDir i) (tokenCacheKey i) = (None, Some err)"
  shows "filter is_Authentication (snd (Do decode u i))
           = [CallAuthentication
                \<lparr> Provider = \<lparr> Provider_IssuerURL = IssuerURL i,
                               Provider_ClientID = ClientID i,
                               Provider_ClientSecret = ClientSecret i,
                               Provider_ExtraScopes = ExtraScopes i \<rparr>,
                  AuthInput_GrantOptionSet = GrantOptionSet i,
                  CachedTokenSet = None,
                  AuthInput_TLSClientConfig = TLSClientConfig i \<rparr>] \<and>
         fst (Do decode u i)
           = fst (Do decode (u \<lparr> FindByKey := \<lambda>dir key. (None, None) \<rparr>) i) \<and>
         calls (snd (Do decode u i))
           = calls (snd (Do decode (u \<lparr> FindByKey := \<lambda>dir key. (None, None) \<rparr>) i))"
  using Do_with_lookup_error [OF assms, of decode]
  by (simp add: authenticationInput_def)

theorem Do_lookup_error_not_surfaced_witness:
  "snd (Mutex_Acquire GetToken_fresh ''get-token'') = None \<and>
   FindByKey GetToken_fresh (TokenCacheDir test_Input) (tokenCacheKey test_Input)
     = (None, Some (New ''file not found'')) \<and>
   filter is_Authentication (snd (Do test_decode GetToken_fresh test_Input))
     = [CallAuthentication
          \<lparr> Provider = \<lparr> Provider_IssuerURL = ''https://accounts.google.com'',
                         Provider_ClientID = ''YOUR_CLIENT_ID'',
                         Provider_ClientSecret = ''YOUR_CLIENT_SECRET'',
                         Provider_ExtraScopes = [] \<rparr>,
            AuthInput_GrantOptionSet = \<lparr> ROPCOption = None \<rparr>,
            CachedTokenSet = None,
            AuthInput_TLSClientConfig =
              \<lparr> CACertFilename = [], CACertData = [], SkipTLSVerify = False \<rparr> \<rparr>] \<and>
   fst (Do test_decode GetToken_fresh test_Input) = Returned None \<and>
   fst (Do test_decode GetToken_fresh_no_lookup_error test_Input) = Returned None \<and>
   calls (snd (Do test_decode GetToken_fresh test_Input))
     = calls (snd (Do test_decode GetToken_fresh_no_lookup_error test_Input)) \<and>
   filter is_Authentication (snd (Do test_decode GetToken_reused test_Input))
     = [CallAuthentication
          \<lparr> Provider = \<lparr> Provider_IssuerURL = ''https://accounts.google.com'',
                         Provider_ClientID = ''YOUR_CLIENT_ID'',
                         Provider_ClientSecret = ''YOUR_CLIENT_SECRET'',
                         Provider_ExtraScopes = [] \<rparr>,
            AuthInput_GrantOptionSet = \<lparr> ROPCOption = None \<rparr>,
            CachedTokenSet = Some \<lparr> IDToken = ''ISSUED_ID_TOKEN'',
                                    RefreshToken = ''YOUR_REFRESH_TOKEN'' \<rparr>,
            AuthInput_TLSClientConfig =
              \<lparr> CACertFilename = [], CACertData = [], SkipTLSVerify = False \<rparr> \<rparr>]"
  using Do_lookup_error_not_surfaced
    [of GetToken_fresh test_Input "New ''file not found''" test_decode]
  by (simp add: GetToken_fresh_def GetToken_fresh_no_lookup_error_def GetToken_reused_def
        test_GetToken_def
        Do_def Do_locked_def Do_authenticated_def Let_def calls_def authenticationInput_def
        test_Input_def test_decode_def test_Output_def test_TokenSet_def)

subsection \<open>The order of the calls\<close>

lemma sorted_ranks_authenticated:
  "sorted_wrt (<) (2 # map step_rank (calls (snd (Do_authenticated decode u i key out))) @ [6])"
  by (cases "decode (TokenSet out)")
     (simp_all add: Do_authenticated_def Let_def calls_append calls_Cons calls_Nil step_rank_def
        split: option.splits)

lemma sorted_ranks_locked:
  "sorted_wrt (<) (0 # map step_rank (calls (snd (Do_locked decode u i))) @ [6])"
proof -
  let ?ai = "authenticationInput i (fst (FindByKey u (TokenCacheDir i) (tokenCacheKey i)))"
  obtain o_opt e_opt where a: "Authentication_Do u ?ai = (o_opt, e_opt)"
    by (cases "Authentication_Do u ?ai")
  show ?thesis
  proof (cases e_opt)
    case (Some e)
    then have "snd (Authentication_Do u ?ai) = Some e" using a by simp
    from Do_locked_auth_error(2) [OF this] show ?thesis
      by (simp add: step_rank_def)
  next
    case e_None: None
    show ?thesis
    proof (cases o_opt)
      case None
      with a e_None have "Authentication_Do u ?ai = (None, None)" by simp
      from Do_locked_panic(2) [OF this] show ?thesis
        by (simp add: step_rank_def)
    next
      case (Some out)
      with a e_None have s: "Authentication_Do u ?ai = (Some out, None)" by simp
      have "sorted_wrt (<) (2 # map step_rank
              (calls (snd (Do_authenticated decode u i (tokenCacheKey i) out))) @ [6])"
        by (rule sorted_ranks_authenticated)
      then show ?thesis
        by (auto simp add: Do_locked_authenticated(2) [OF s] step_rank_def sorted_wrt_append)
    qed
  qed
qed

text \<open>
  C3, as amended. In every invocation the calls of \<^verbatim>\<open>Do\<close> occur in the order: lock
  acquisition, cache lookup (with the derived key), authentication, decoding of the
  token, cache save, write to the sink, release of the lock; each occurs at most once.
  An invocation that returns without an error makes all of them, the save only for a
  fresh token. So the token is decoded before the cache save, and the lock is released
  last, after the write to the sink.
\<close>

theorem Do_call_order:
  "sorted_wrt (<) (map step_rank (calls (snd (Do decode u i)))) \<and>
   (fst (Do decode u i) = Returned None \<longrightarrow>
      map step_rank (calls (snd (Do decode u i))) = [0, 1, 2, 3, 4, 5, 6] \<or>
      map step_rank (calls (snd (Do decode u i))) = [0, 1, 2, 3, 5, 6])"
proof (cases "snd (Mutex_Acquire u ''get-token'')")
  case (Some e)
  then show ?thesis
    by (simp add: Do_when_acquire_fails [OF Some] calls_Cons calls_Nil step_rank_def)
next
  case None
  have c: "map step_rank (calls (snd (Do decode u i)))
         = 0 # map step_rank (calls (snd (Do_locked decode u i))) @ [6]"
    by (simp add: Do_acquired [OF None] calls_append calls_Cons calls_Nil step_rank_def)
  have s: "sorted_wrt (<) (map step_rank (calls (snd (Do decode u i))))"
    unfolding c by (rule sorted_ranks_locked)
  have r: "map step_rank (calls (snd (Do decode u i))) = [0, 1, 2, 3, 4, 5, 6] \<or>
           map step_rank (calls (snd (Do decode u i))) = [0, 1, 2, 3, 5, 6]"
    if ok: "fst (Do decode u i) = Returned None"
  proof -
    let ?ai = "authenticationInput i (fst (FindByKey u (TokenCacheDir i) (tokenCacheKey i)))"
    from ok have l: "fst (Do_locked decode u i) = Returned None"
      by (simp add: Do_acquired [OF None])
    obtain o_opt e_opt where a: "Authentication_Do u ?ai = (o_opt, e_opt)"
      by (cases "Authentication_Do u ?ai")
    have "e_opt = None"
    proof (cases e_opt)
      case (Some e)
      then have "snd (Authentication_Do u ?ai) = Some e" using a by simp
      from Do_locked_auth_error(1) [OF this] l show ?thesis by simp
    qed simp
    moreover have "o_opt \<noteq> None"
    proof
      assume "o_opt = None"
      with a \<open>e_opt = None\<close> have "Authentication_Do u ?ai = (None, None)" by simp
      from Do_locked_panic(1) [OF this] l show False by simp
    qed
    ultimately obtain out where au: "Authentication_Do u ?ai = (Some out, None)"
      using a by auto
    from l have d: "fst (Do_authenticated decode u i (tokenCacheKey i) out) = Returned None"
      by (simp add: Do_locked_authenticated(1) [OF au])
    show ?thesis
    proof (cases "decode (TokenSet out)")
      case (Inl e)
      with d show ?thesis
        by (simp add: Do_authenticated_decode_error [where decode=decode and out=out, OF Inl])
    next
      case (Inr claims)
      from d show ?thesis
        unfolding c
        by (simp add: Do_locked_authenticated(2) [OF au]
              Do_authenticated_calls [where decode=decode and out=out, OF Inr]
              Do_authenticated_outcome [where decode=decode and out=out, OF Inr]
              step_rank_def split: option.splits if_splits)
    qed
  qed
  from s r show ?thesis by blast
qed

theorem Do_call_order_witness:
  "fst (Do test_decode GetToken_fresh test_Input) = Returned None \<and>
   map step_rank (calls (snd (Do test_decode GetToken_fresh test_Input))) = [0, 1, 2, 3, 4, 5, 6]"
  using Do_call_order
    [of test_decode GetToken_fresh test_Input]
  by (simp add: GetToken_fresh_def Do_def Do_locked_def Do_authenticated_def Let_def calls_def
        step_rank_def test_GetToken_def test_decode_def test_Output_def test_TokenSet_def)

text \<open>
  C3 as stated fails: with a fresh token that decodes, the token is decoded before the
  cache save, not after it, and the lock is released after the decoding and the write
  to the sink, not before them; with a fresh token that does not decode, the invocation
  ends at the decoding, without a save.
\<close>

theorem Do_call_order_counterexample:
  "calls (snd (Do test_decode GetToken_fresh test_Input))
     = [CallAcquire ''get-token'',
        CallFindByKey ''/path/to/token-cache'' (tokenCacheKey test_Input),
        CallAuthentication (authenticationInput test_Input None),
        CallDecode (test_TokenSet ''ISSUED_ID_TOKEN''),
        CallSave ''/path/to/token-cache'' (tokenCacheKey test_Input)
          (test_TokenSet ''ISSUED_ID_TOKEN''),
        CallWrite \<lparr> Token = ''ISSUED_ID_TOKEN'', Output_Expiry = 3600 \<rparr>,
        CallRelease test_Lock] \<and>
   precedes is_Decode is_Save (snd (Do test_decode GetToken_fresh test_Input)) = True \<and>
   precedes is_Save is_Decode (snd (Do test_decode GetToken_fresh test_Input)) = False \<and>
   precedes is_Write is_Release (snd (Do test_decode GetToken_fresh test_Input)) = True \<and>
   precedes is_Release is_Write (snd (Do test_decode GetToken_fresh test_Input)) = False \<and>
   precedes is_Release is_Decode (snd (Do test_decode GetToken_fresh test_Input)) = False \<and>
   calls (snd (Do test_decode GetToken_fresh_undecodable test_Input))
     = [CallAcquire ''get-token'',
        CallFindByKey ''/path/to/token-cache'' (tokenCacheKey test_Input),
        CallAuthentication (authenticationInput test_Input None),
        CallDecode (test_TokenSet ''not a token''),
        CallRelease test_Lock]"
  by (simp add: GetToken_fresh_undecodable_def GetToken_fresh_def Do_def Do_locked_def
        Do_authenticated_def Let_def calls_def test_GetToken_def test_decode_def test_Output_def
        test_TokenSet_def test_Input_def)

subsection \<open>The errors that \<^verbatim>\<open>Do\<close> returns\<close>

text \<open>
  C6. The claim is that every fatal error is wrapped with a message that names its stage.
  The four later stages do so: a failure of the authentication, of the decoding, of the
  cache save and of the write to the sink comes back inside \<^verbatim>\<open>xerrors.Errorf\<close> with
  the message of the stage. The error of \<^verbatim>\<open>Mutex.Acquire\<close> does not: line 58 is a plain
  \<^verbatim>\<open>return err\<close>, so the caller receives the collaborator's error itself, with no
  wrapper and no lock-stage message.
\<close>

theorem Do_lock_error_not_wrapped:
  "fst (Do test_decode GetToken_lock_fails test_Input)
     = Returned (Some (New ''could not lock'')) \<and>
   is_Errorf (New ''could not lock'') = False \<and>
   fst (Do test_decode GetToken_authentication_fails test_Input)
     = Returned (Some (Errorf ''authentication error: %w'' (New ''authentication error''))) \<and>
   fst (Do test_decode GetToken_fresh_undecodable test_Input)
     = Returned (Some (Errorf ''you got an invalid token: %w''
         (New ''token contains an invalid number of segments''))) \<and>
   fst (Do test_decode GetToken_save_fails test_Input)
     = Returned (Some (Errorf ''could not write the token cache: %w''
         (New ''no space left on device''))) \<and>
   fst (Do test_decode GetToken_write_fails test_Input)
     = Returned (Some (Errorf ''could not write the token to client-go: %w''
         (New ''broken pipe'')))"
  by (simp add: GetToken_lock_fails_def GetToken_authentication_fails_def
        GetToken_fresh_undecodable_def GetToken_save_fails_def GetToken_write_fails_def
        Do_def Do_locked_def Do_authenticated_def Let_def test_GetToken_def test_decode_def
        test_Output_def test_TokenSet_def)

section \<open>Properties of the token cache key\<close>

text \<open>
  C2, as amended. The token cache key keeps the order of the lists. Two inputs have the
  same key exactly when they agree on the issuer URL, the client ID, the client secret,
  the user name of the password grant (empty when that option is absent), the list of
  extra scopes as a list, the CA file names joined by commas, the CA data joined by
  commas, and the skip-verify flag.
\<close>

theorem tokenCacheKey_eq_iff:
  "tokenCacheKey a = tokenCacheKey b \<longleftrightarrow>
     IssuerURL a = IssuerURL b \<and>
     ClientID a = ClientID b \<and>
     ClientSecret a = ClientSecret b \<and>
     (case ROPCOption (GrantOptionSet a) of None \<Rightarrow> [] | Some opt \<Rightarrow> Username opt)
       = (case ROPCOption (GrantOptionSet b) of None \<Rightarrow> [] | Some opt \<Rightarrow> Username opt) \<and>
     ExtraScopes a = ExtraScopes b \<and>
     Join (CACertFilename (TLSClientConfig a)) '','' = Join (CACertFilename (TLSClientConfig b)) '','' \<and>
     Join (CACertData (TLSClientConfig a)) '','' = Join (CACertData (TLSClientConfig b)) '','' \<and>
     SkipTLSVerify (TLSClientConfig a) = SkipTLSVerify (TLSClientConfig b)"
  by (auto simp add: tokenCacheKey_def Let_def split: option.splits)

text \<open>
  C2 as stated fails: reordering the extra scopes, the CA file names or the CA data
  changes the key.
\<close>

theorem tokenCacheKey_eq_iff_counterexample:
  "mset [''email'', ''groups''] = mset [''groups'', ''email''] \<and>
   tokenCacheKey (test_Input \<lparr> ExtraScopes := [''email'', ''groups''] \<rparr>)
     \<noteq> tokenCacheKey (test_Input \<lparr> ExtraScopes := [''groups'', ''email''] \<rparr>) \<and>
   mset [''/a.crt'', ''/b.crt''] = mset [''/b.crt'', ''/a.crt''] \<and>
   tokenCacheKey (test_Input \<lparr> TLSClientConfig :=
       \<lparr> CACertFilename = [''/a.crt'', ''/b.crt''], CACertData = [], SkipTLSVerify = False \<rparr> \<rparr>)
     \<noteq> tokenCacheKey (test_Input \<lparr> TLSClientConfig :=
       \<lparr> CACertFilename = [''/b.crt'', ''/a.crt''], CACertData = [], SkipTLSVerify = False \<rparr> \<rparr>) \<and>
   tokenCacheKey (test_Input \<lparr> TLSClientConfig :=
       \<lparr> CACertFilename = [], CACertData = [''/a.crt'', ''/b.crt''], SkipTLSVerify = False \<rparr> \<rparr>)
     \<noteq> tokenCacheKey (test_Input \<lparr> TLSClientConfig :=
       \<lparr> CACertFilename = [], CACertData = [''/b.crt'', ''/a.crt''], SkipTLSVerify = False \<rparr> \<rparr>)"
  by (simp add: tokenCacheKey_def test_Input_def)

text \<open>
  C9. The key is not injective on the CA lists: the input with the one CA file name
  \<^verbatim>\<open>a,b\<close> and the input with the two CA file names \<^verbatim>\<open>a\<close> and \<^verbatim>\<open>b\<close>
  differ and have the same key, so with any collaborators the two invocations look up the
  same cache entry: the same directory and the same key.
\<close>

theorem tokenCacheKey_not_injective:
  "test_Input \<lparr> TLSClientConfig :=
       \<lparr> CACertFilename = [''a,b''], CACertData = [], SkipTLSVerify = False \<rparr> \<rparr>
     \<noteq> test_Input \<lparr> TLSClientConfig :=
       \<lparr> CACertFilename = [''a'', ''b''], CACertData = [], SkipTLSVerify = False \<rparr> \<rparr> \<and>
   tokenCacheKey (test_Input \<lparr> TLSClientConfig :=
       \<lparr> CACertFilename = [''a,b''], CACertData = [], SkipTLSVerify = False \<rparr> \<rparr>)
     = tokenCacheKey (test_Input \<lparr> TLSClientConfig :=
       \<lparr> CACertFilename = [''a'', ''b''], CACertData = [], SkipTLSVerify = False \<rparr> \<rparr>) \<and>
   filter is_FindByKey (snd (Do decode u (test_Input \<lparr> TLSClientConfig :=
       \<lparr> CACertFilename = [''a,b''], CACertData = [], SkipTLSVerify = False \<rparr> \<rparr>)))
     = filter is_FindByKey (snd (Do decode u (test_Input \<lparr> TLSClientConfig :=
       \<lparr> CACertFilename = [''a'', ''b''], CACertData = [], SkipTLSVerify = False \<rparr> \<rparr>)))"
  by (simp add: Do_lookup_calls) (simp add: tokenCacheKey_def test_Input_def)

section \<open>Properties of \<^verbatim>\<open>Standalone.Do\<close>\<close>

text \<open>
  C8, as amended. When the entry has been read and the authentication use-case succeeds:
  for a fresh token that decodes, the entry is written back exactly once, with the ID
  token and the refresh token of the returned token set and with every other field
  (origin location, user name, issuer URL, client ID, client secret, CA file path, inline
  CA data) as it was read; for a reused token, and for a token that does not decode, the
  entry is not written back.
\<close>

theorem Standalone_Do_write_back:
  assumes "GetCurrentAuthProvider u (KubeconfigFilename i) (KubeconfigContext i)
             (KubeconfigUser i) = Inr p"
    and "Standalone_Authentication_Do u (standalone_authenticationInput i p) = Inr out"
  shows "filter is_UpdateAuthProvider (snd (Standalone_Do decode u i)) =
           (if AlreadyHasValidIDToken out \<or> isl (decode (TokenSet out)) then []
            else [CallUpdateAuthProvider
                    (p \<lparr> AuthProvider_IDToken := IDToken (TokenSet out),
                         AuthProvider_RefreshToken := RefreshToken (TokenSet out) \<rparr>)]) \<and>
         list_all (\<lambda>e. case e of
             CallUpdateAuthProvider w \<Rightarrow>
               LocationOfOrigin w = LocationOfOrigin p \<and>
               UserName w = UserName p \<and>
               IDPIssuerURL w = IDPIssuerURL p \<and>
               AuthProvider_ClientID w = AuthProvider_ClientID p \<and>
               AuthProvider_ClientSecret w = AuthProvider_ClientSecret p \<and>
               IDPCertificateAuthority w = IDPCertificateAuthority p \<and>
               IDPCertificateAuthorityData w = IDPCertificateAuthorityData p \<and>
               AuthProvider_IDToken w = IDToken (TokenSet out) \<and>
               AuthProvider_RefreshToken w = RefreshToken (TokenSet out)
           | _ \<Rightarrow> True) (snd (Standalone_Do decode u i))"
  using assms
  by (cases "decode (TokenSet out)")
     (simp_all add: Standalone_Do_def Let_def split: option.splits)

theorem Standalone_Do_write_back_witness:
  "GetCurrentAuthProvider (test_Standalone (test_Output False ''ISSUED_ID_TOKEN''))
     (KubeconfigFilename test_standalone_Input) (KubeconfigContext test_standalone_Input)
     (KubeconfigUser test_standalone_Input) = Inr test_AuthProvider \<and>
   Standalone_Authentication_Do (test_Standalone (test_Output False ''ISSUED_ID_TOKEN''))
     (standalone_authenticationInput test_standalone_Input test_AuthProvider)
     = Inr (test_Output False ''ISSUED_ID_TOKEN'') \<and>
   filter is_UpdateAuthProvider
     (snd (Standalone_Do test_decode (test_Standalone (test_Output False ''ISSUED_ID_TOKEN''))
        test_standalone_Input))
     = [CallUpdateAuthProvider
          (test_AuthProvider \<lparr> AuthProvider_IDToken := ''ISSUED_ID_TOKEN'',
                               AuthProvider_RefreshToken := ''YOUR_REFRESH_TOKEN'' \<rparr>)] \<and>
   filter is_UpdateAuthProvider
     (snd (Standalone_Do test_decode (test_Standalone (test_Output True ''ISSUED_ID_TOKEN''))
        test_standalone_Input))
     = []"
  using
    Standalone_Do_write_back
      [of "test_Standalone (test_Output False ''ISSUED_ID_TOKEN'')" test_standalone_Input
        test_AuthProvider "test_Output False ''ISSUED_ID_TOKEN''" test_decode]
    Standalone_Do_write_back
      [of "test_Standalone (test_Output True ''ISSUED_ID_TOKEN'')" test_standalone_Input
        test_AuthProvider "test_Output True ''ISSUED_ID_TOKEN''" test_decode]
  by (simp add: test_Standalone_def test_Output_def test_TokenSet_def test_decode_def)

text \<open>
  C8 as stated fails: the authentication use-case reports a fresh token whose ID token
  does not decode; \<^verbatim>\<open>Standalone.Do\<close> returns the decode error and the entry is not
  written back.
\<close>

theorem Standalone_Do_write_back_counterexample:
  "GetCurrentAuthProvider (test_Standalone (test_Output False ''not a token''))
     (KubeconfigFilename test_standalone_Input) (KubeconfigContext test_standalone_Input)
     (KubeconfigUser test_standalone_Input) = Inr test_AuthProvider \<and>
   Standalone_Authentication_Do (test_Standalone (test_Output False ''not a token''))
     (standalone_authenticationInput test_standalone_Input test_AuthProvider)
     = Inr (test_Output False ''not a token'') \<and>
   AlreadyHasValidIDToken (test_Output False ''not a token'') = False \<and>
   filter is_UpdateAuthProvider
     (snd (Standalone_Do test_decode (test_Standalone (test_Output False ''not a token''))
        test_standalone_Input))
     = [] \<and>
   fst (Standalone_Do test_decode (test_Standalone (test_Output False ''not a token''))
        test_standalone_Input)
     = Some (Errorf ''token decode error: %w''
         (New ''token contains an invalid number of segments''))"
  by (simp add: Standalone_Do_def Let_def test_Standalone_def test_Output_def
        test_TokenSet_def test_decode_def)

end
